theory Spec2Isabelle
  imports Complex_Main "HOL-Library.Signed_Division"
begin

section \<open>Grid index (curve\_segmentation\_mex.cpp)\<close>

text \<open>
  The source keeps the image size in three global C \<open>int\<close>s \<open>M\<close>, \<open>N\<close>, \<open>O\<close>
  (set from the unary volume at the start of \<open>mexFunction\<close>). Here they are the fields
  of a record that every indexing function takes.

  C \<open>int\<close> is modelled by \<open>int\<close>. C's \<open>/\<close> and \<open>%\<close> truncate towards zero, which is
  \<open>sdiv\<close> and \<open>smod\<close>. Signed overflow is undefined in C, so the embedding describes
  the executions in which every intermediate value fits the \<open>int\<close> range.
\<close>

type_synonym point = "int \<times> int \<times> int"

record grid =
  dim_M :: int
  dim_N :: int
  dim_O :: int

definition validind :: "grid \<Rightarrow> int \<Rightarrow> int \<Rightarrow> int \<Rightarrow> bool" where
  "validind g n1 n2 n3 =
     (if (n1 > dim_M g - 1 \<or> n2 > dim_N g - 1 \<or> n3 > dim_O g - 1) \<or> (n1 < 0 \<or> n2 < 0 \<or> n3 < 0)
      then False else True)"

definition sub2ind :: "grid \<Rightarrow> int \<Rightarrow> int \<Rightarrow> int \<Rightarrow> int" where
  "sub2ind g n1 n2 n3 = n1 + n2 * dim_M g + n3 * dim_M g * dim_N g"

definition ind2sub :: "grid \<Rightarrow> int \<Rightarrow> point" where
  "ind2sub g n =
     (let z = n sdiv (dim_M g * dim_N g);
          y = (n - z * dim_M g * dim_N g) sdiv dim_M g;
          x = n - y * dim_M g - z * dim_M g * dim_N g
      in (x, y, z))"

text \<open>\<open>make_point\<close> repeats the arithmetic of \<open>ind2sub\<close> and wraps it in a mesh point.\<close>

definition make_point :: "grid \<Rightarrow> int \<Rightarrow> point" where
  "make_point g n =
     (let z = n sdiv (dim_M g * dim_N g);
          y = (n - z * dim_M g * dim_N g) sdiv dim_M g;
          x = n - y * dim_M g - z * dim_M g * dim_N g
      in (x, y, z))"

text \<open>The overloads on a mesh point.\<close>

definition validind_pt :: "grid \<Rightarrow> point \<Rightarrow> bool" where
  "validind_pt g p = (case p of (x, y, z) \<Rightarrow> validind g x y z)"

definition sub2ind_pt :: "grid \<Rightarrow> point \<Rightarrow> int" where
  "sub2ind_pt g p = (case p of (x, y, z) \<Rightarrow> sub2ind g x y z)"

section \<open>Entry point of the search (curve\_segmentation\_mex.cpp, mexFunction)\<close>

text \<open>
  \<open>mexFunction\<close> validates its arguments, adjusts the settings and calls one of the
  three segmentation routines. The model follows it up to that call. The arguments are
  the facts it reads from the host arrays: the argument counts, the shapes of the label
  map, the unary volume and the connectivity matrix, the parsed settings, the voxel
  dimensions, and the optional cell arrays of explicit start and end sets, each given
  by the column counts of its elements (\<open>None\<close> when the parameter is absent,
  \<open>NotCell\<close> when it is not a cell array). A \<open>double\<close> is a \<open>real\<close>; only
  comparisons are made on them here. Diagnostic output under \<open>VERBOSE\<close> is left out.
\<close>

record InstanceSettings =
  length_penalty :: real
  curvature_penalty :: real
  torsion_penalty :: real
  curvature_power :: real
  torsion_power :: real
  regularization_radius :: real
  store_visit_time :: bool

datatype cell_arg = NotCell | Cell "int list"

record mex_args =
  nlhs :: int
  nrhs :: int
  mesh_ndim :: int
  mesh_M :: int
  mesh_N :: int
  mesh_O :: int
  unary_ndim :: int
  unary_M :: int
  unary_N :: int
  unary_O :: int
  connectivity_N :: int
  connectivity_ndim :: int
  settings :: InstanceSettings
  voxeldimensions :: "real list"
  start_sets_cell :: "cell_arg option"
  end_sets_cell :: "cell_arg option"

text \<open>
  A failed \<open>ASSERT\<close> and a call of \<open>mexErrMsgTxt\<close> both abandon the call; the model
  returns them as errors.
\<close>

datatype mex_error = AssertFailed | ErrMsgTxt string

datatype lifting = NodeSegmentation | EdgeSegmentation | EdgepairSegmentation

record dispatch =
  called :: lifting
  passed_settings :: InstanceSettings
  passed_voxeldimensions :: "real list"
  printed :: "string list"

text \<open>Reading one cell array of point sets: every element must have 3 or 2 columns.\<close>

fun read_point_sets :: "string \<Rightarrow> int list \<Rightarrow> mex_error + unit" where
  "read_point_sets msg [] = Inr ()"
| "read_point_sets msg (n # ns) =
     (if n = 3 then read_point_sets msg ns
      else if n = 2 then read_point_sets msg ns
      else Inl (ErrMsgTxt msg))"

definition read_sets_cell :: "string \<Rightarrow> cell_arg option \<Rightarrow> mex_error + unit" where
  "read_sets_cell msg c =
     (case c of
        None \<Rightarrow> Inr ()
      | Some NotCell \<Rightarrow> Inl AssertFailed
      | Some (Cell ns) \<Rightarrow> read_point_sets msg ns)"

definition default_voxeldimensions :: "real list \<Rightarrow> real list" where
  "default_voxeldimensions v = (if v = [] then [1, 1, 1] else v)"

definition torsion_warning :: string where
  "torsion_warning = ''Torsion is always zero in a plane. '' @ [CHR 0x0A]"

definition mexFunction :: "mex_args \<Rightarrow> mex_error + dispatch" where
  "mexFunction a =
     (if \<not> nlhs a = 1 then Inl AssertFailed
      else if \<not> nrhs a \<ge> 3 then Inl AssertFailed
      else if \<not> connectivity_N a = 3 then Inl AssertFailed
      else if \<not> connectivity_ndim a = 2 then Inl AssertFailed
      else if mesh_ndim a \<noteq> 2 \<and> mesh_ndim a \<noteq> 3
        then Inl (ErrMsgTxt (''only 2d and 3d grid supported '' @ [CHR 0x0A]))
      else
        let st = settings a;
            vd = default_voxeldimensions (voxeldimensions a)
        in
        if \<not> length vd = 3 then Inl AssertFailed
        else if \<not> regularization_radius st > 0 then Inl AssertFailed
        else if \<not> mesh_ndim a = unary_ndim a then Inl AssertFailed
        else if \<not> mesh_M a = unary_M a then Inl AssertFailed
        else if \<not> mesh_N a = unary_N a then Inl AssertFailed
        else if \<not> mesh_O a = unary_O a then Inl AssertFailed
        else if \<not> length_penalty st \<ge> 0 then Inl AssertFailed
        else if \<not> curvature_penalty st \<ge> 0 then Inl AssertFailed
        else if \<not> torsion_penalty st \<ge> 0 then Inl AssertFailed
        else
          let (st, out) =
                (if mesh_ndim a = 2 \<and> torsion_penalty st \<noteq> 0
                 then (st\<lparr>torsion_penalty := 0\<rparr>, [torsion_warning])
                 else (st, []));
              (use_pairs, use_edges) =
                (if torsion_penalty st \<noteq> 0 then (True, False)
                 else if curvature_penalty st \<noteq> 0 then (False, True)
                 else (False, False))
          in
          case read_sets_cell ''Error in defined start sets.'' (start_sets_cell a) of
            Inl e \<Rightarrow> Inl e
          | Inr _ \<Rightarrow>
          (case read_sets_cell ''Error in defined end sets.'' (end_sets_cell a) of
            Inl e \<Rightarrow> Inl e
          | Inr _ \<Rightarrow>
            if store_visit_time st
            then Inl (ErrMsgTxt ''store_visit_time is not supported yet.'')
            else
              Inr \<lparr>called =
                     (if use_pairs then EdgepairSegmentation
                      else if use_edges then EdgeSegmentation
                      else NodeSegmentation),
                   passed_settings = st,
                   passed_voxeldimensions = vd,
                   printed = out\<rparr>))"

section \<open>Edge-pair lifting (edgepair\_segmentaion.cpp)\<close>

text \<open>
  The connectivity matrix has one row per offset and three columns; it is the list of
  its rows, \<open>connectivity.M\<close> is the number of rows, and \<open>connectivity(e, j)\<close> reads
  column \<open>j\<close> of row \<open>e\<close>. The source does not check \<open>e\<close>; here a read outside
  the rows has no specified value.
\<close>

type_synonym connectivity = "point list"

definition conn_M :: "connectivity \<Rightarrow> int" where
  "conn_M conn = int (length conn)"

definition connectivity_at :: "connectivity \<Rightarrow> int \<Rightarrow> nat \<Rightarrow> int" where
  "connectivity_at conn e j =
     (case conn ! nat e of (a, b, c) \<Rightarrow> if j = 0 then a else if j = 1 then b else c)"

text \<open>
  The three assignments \<open>x2 = x + connectivity(e,0); y2 = y + connectivity(e,1);
  z2 = z + connectivity(e,2)\<close>, which the source repeats for every move.
\<close>

definition move :: "connectivity \<Rightarrow> point \<Rightarrow> int \<Rightarrow> point" where
  "move conn p e =
     (case p of (x, y, z) \<Rightarrow>
        (x + connectivity_at conn e 0, y + connectivity_at conn e 1, z + connectivity_at conn e 2))"

definition decompose_edgepair :: "connectivity \<Rightarrow> int \<Rightarrow> int \<times> int" where
  "decompose_edgepair conn edge_num =
     (let divisor = conn_M conn;
          root_node = edge_num sdiv divisor;
          edge_id = edge_num smod divisor
      in (root_node, edge_id))"

definition decompose_pair_of_edgepairs :: "connectivity \<Rightarrow> int \<Rightarrow> int \<times> int" where
  "decompose_pair_of_edgepairs conn edgepair_num =
     (let divisor = conn_M conn * conn_M conn;
          root_node = edgepair_num sdiv divisor;
          edgepair_id = edgepair_num smod divisor
      in (root_node, edgepair_id))"

definition points_in_a_edgepair :: "grid \<Rightarrow> connectivity \<Rightarrow> int \<Rightarrow> int \<times> int \<times> int" where
  "points_in_a_edgepair g conn edgepair_num =
     (let (root, edgepair_id) = decompose_pair_of_edgepairs conn edgepair_num;
          (e1, e2) = decompose_edgepair conn edgepair_id;
          p1 = ind2sub g root;
          p2 = move conn p1 e1;
          p3 = move conn p2 e2;
          q2 = sub2ind_pt g p2;
          q3 = sub2ind_pt g p3
      in (root, q2, q3))"

definition pairpath_to_points :: "grid \<Rightarrow> connectivity \<Rightarrow> int list \<Rightarrow> point list" where
  "pairpath_to_points g conn path =
     (if length path > 0
      then (case points_in_a_edgepair g conn (path ! 0) of
              (p1, p2, _) \<Rightarrow> [make_point g p1, make_point g p2])
      else [])
     @ map (\<lambda>s. case points_in_a_edgepair g conn s of (_, _, p3) \<Rightarrow> make_point g p3) path"

subsection \<open>Start and end sets\<close>

text \<open>
  The label map is read as \<open>mesh_map(x, y, z)\<close>; \<open>mesh_map.numel()\<close> is the number of
  voxels, which \<open>mexFunction\<close> has checked to be that of the unary volume, the source of
  \<open>M\<close>, \<open>N\<close>, \<open>O\<close>. A \<open>std::set<int>\<close> is the ascending list of its elements.
\<close>

type_synonym mesh_map = "point \<Rightarrow> int"

definition numel :: "grid \<Rightarrow> int" where
  "numel g = dim_M g * dim_N g * dim_O g"

definition set_insert :: "int \<Rightarrow> int list \<Rightarrow> int list" where
  "set_insert x xs = insort_insert x xs"

text \<open>The body of the innermost loop over \<open>e2\<close>, at voxel \<open>p1\<close> and after the move \<open>e1\<close> to \<open>p2\<close>.\<close>

definition pair_body ::
  "grid \<Rightarrow> connectivity \<Rightarrow> mesh_map \<Rightarrow> point \<Rightarrow> int \<Rightarrow> point \<Rightarrow> int list \<times> int list \<Rightarrow> int
    \<Rightarrow> int list \<times> int list" where
  "pair_body g conn mesh p1 e1 p2 sets e2 =
     (let p3 = move conn p2 e2 in
      if p1 = p3 then sets
      else if \<not> validind_pt g p3 then sets
      else
        let pair_id = sub2ind_pt g p1 * (conn_M conn * conn_M conn) + conn_M conn * e1 + e2;
            (start_set_pairs, end_set_pairs) = sets;
            start_set_pairs =
              (if mesh p1 = 2 then set_insert pair_id start_set_pairs else start_set_pairs);
            end_set_pairs =
              (if mesh p3 = 3 then set_insert pair_id end_set_pairs else end_set_pairs)
        in (start_set_pairs, end_set_pairs))"

text \<open>The body of the loop over \<open>e1\<close>, at voxel \<open>p1\<close>.\<close>

definition edge_body ::
  "grid \<Rightarrow> connectivity \<Rightarrow> mesh_map \<Rightarrow> point \<Rightarrow> int list \<times> int list \<Rightarrow> int
    \<Rightarrow> int list \<times> int list" where
  "edge_body g conn mesh p1 sets e1 =
     (let p2 = move conn p1 e1 in
      if \<not> validind_pt g p2 then sets
      else foldl (pair_body g conn mesh p1 e1 p2) sets [0 .. conn_M conn - 1])"

text \<open>The body of the loop over the voxel numbers \<open>n\<close>.\<close>

definition voxel_body ::
  "grid \<Rightarrow> connectivity \<Rightarrow> mesh_map \<Rightarrow> int list \<times> int list \<Rightarrow> int \<Rightarrow> int list \<times> int list" where
  "voxel_body g conn mesh sets n =
     (let p1 = ind2sub g n
      in foldl (edge_body g conn mesh p1) sets [0 .. conn_M conn - 1])"

text \<open>
  Lines 116 to 152 of \<open>edgepair_segmentation\<close>: the three nested loops, from empty sets;
  the result is the pair \<open>(start_set_pairs, end_set_pairs)\<close>.
\<close>

definition start_end_set_pairs ::
  "grid \<Rightarrow> connectivity \<Rightarrow> mesh_map \<Rightarrow> int list \<times> int list" where
  "start_end_set_pairs g conn mesh = foldl (voxel_body g conn mesh) ([], []) [0 .. numel g - 1]"

subsection \<open>Neighbor expansion\<close>

text \<open>
  The cost functors (the data term's line integral and the three regularizers) are
  parameters. The source accumulates each cost in a \<open>float\<close> with \<open>+=\<close>; the costs
  here are of any type with an addition, applied in the order of the source, and no
  law of arithmetic is assumed of it.
\<close>

record 'c cost_functors =
  evaluate_line_integral :: "point \<Rightarrow> point \<Rightarrow> 'c"
  length_cost :: "point \<Rightarrow> point \<Rightarrow> 'c"
  curvature_cost :: "point \<Rightarrow> point \<Rightarrow> point \<Rightarrow> 'c"
  torsion_cost :: "point \<Rightarrow> point \<Rightarrow> point \<Rightarrow> point \<Rightarrow> 'c"

type_synonym 'c neighbor = "int \<times> 'c"

text \<open>The special case: one iteration over \<open>start_set_pairs\<close>.\<close>

definition super_body ::
  "grid \<Rightarrow> connectivity \<Rightarrow> ('c::plus) cost_functors \<Rightarrow> 'c neighbor list \<Rightarrow> int \<Rightarrow> 'c neighbor list" where
  "super_body g conn cf neighbors itr =
     (let (q1, q2, q3) = points_in_a_edgepair g conn itr;
          p2 = ind2sub g q1;
          p3 = ind2sub g q2;
          p4 = ind2sub g q3;
          cost = evaluate_line_integral cf p2 p3;
          cost = cost + evaluate_line_integral cf p3 p4;
          cost = cost + curvature_cost cf p2 p3 p4;
          cost = cost + length_cost cf p2 p3;
          cost = cost + length_cost cf p3 p4
      in neighbors @ [(itr, cost)])"

text \<open>The usual case: one iteration over \<open>e3\<close>, for the chain \<open>p1\<close>, \<open>p2\<close>, \<open>p3\<close> and the move \<open>e2\<close>.\<close>

definition usual_body ::
  "grid \<Rightarrow> connectivity \<Rightarrow> ('c::plus) cost_functors \<Rightarrow> point \<Rightarrow> point \<Rightarrow> point \<Rightarrow> int
    \<Rightarrow> 'c neighbor list \<Rightarrow> int \<Rightarrow> 'c neighbor list" where
  "usual_body g conn cf p1 p2 p3 e2 neighbors e3 =
     (let p4 = move conn p3 e3 in
      if \<not> validind_pt g p4 then neighbors
      else if p2 = p4 then neighbors
      else
        let cost = evaluate_line_integral cf p3 p4;
            cost = cost + length_cost cf p3 p4;
            cost = cost + torsion_cost cf p1 p2 p3 p4;
            cost = cost + curvature_cost cf p2 p3 p4;
            edge_pair_id = conn_M conn * e2 + e3;
            dest = sub2ind_pt g p2 * (conn_M conn * conn_M conn) + edge_pair_id
        in neighbors @ [(dest, cost)])"

text \<open>
  The closure \<open>get_neighbors_torsion\<close>, with what it captures as arguments. It returns
  the neighbors it appends. Its evaluation counter is left out.
\<close>

definition get_neighbors_torsion ::
  "grid \<Rightarrow> connectivity \<Rightarrow> ('c::plus) cost_functors \<Rightarrow> int list \<Rightarrow> int \<Rightarrow> int \<Rightarrow> 'c neighbor list" where
  "get_neighbors_torsion g conn cf start_set_pairs e_super ep =
     (if ep = e_super
      then foldl (super_body g conn cf) [] start_set_pairs
      else
        let (root, edgepair_id) = decompose_pair_of_edgepairs conn ep;
            (e1, e2) = decompose_edgepair conn edgepair_id;
            p1 = ind2sub g root;
            p2 = move conn p1 e1;
            p3 = move conn p2 e2
        in foldl (usual_body g conn cf p1 p2 p3 e2) [] [0 .. conn_M conn - 1])"

subsection \<open>The query\<close>

text \<open>
  \<open>shortest_path\<close> is not among the sources; \<open>edgepair_segmentation\<close> takes it as a
  parameter: from the number of states, the source states, the goal states and the
  neighbor function it returns a cost and a state path, empty when it found none.
\<close>

type_synonym 'c shortest_path =
  "int \<Rightarrow> int list \<Rightarrow> int list \<Rightarrow> (int \<Rightarrow> 'c neighbor list) \<Rightarrow> 'c \<times> int list"

text \<open>Lines 103 to 107; the super-state \<open>e_super\<close> is numbered \<open>num_edges\<close>.\<close>

definition num_edges :: "grid \<Rightarrow> connectivity \<Rightarrow> int" where
  "num_edges g conn =
     (let num_elements = numel g;
          num_points_per_element = conn_M conn * conn_M conn
      in num_points_per_element * num_elements)"

definition edgepair_segmentation ::
  "'c shortest_path \<Rightarrow> grid \<Rightarrow> connectivity \<Rightarrow> mesh_map \<Rightarrow> ('c::plus) cost_functors
    \<Rightarrow> mex_error + point list \<times> 'c" where
  "edgepair_segmentation shortest_path g conn mesh cf =
     (let (start_set_pairs, end_set_pairs) = start_end_set_pairs g conn mesh;
          e_super = num_edges g conn;
          super_edge = [e_super];
          (cost, path_pairs) =
            shortest_path (num_edges g conn + 1) super_edge end_set_pairs
              (get_neighbors_torsion g conn cf start_set_pairs e_super)
      in if length path_pairs = 0
         then Inl (ErrMsgTxt ''No solution! (Remove this warning)'')
         else Inr (pairpath_to_points g conn (tl path_pairs), cost))"

text \<open>
  Modelled from the spec: \<open>shortest_path\<close>, the search engine, which is not among the
  sources. Section 4.5: it returns a reconstructed path, via parent pointers recorded at
  relaxation time, from a source state to the first goal state it finalizes, and an
  empty path if no goal is reachable from any source. So a path it returns starts at a
  source, ends at a goal, and each state after the first is among the neighbors that the
  neighbor function gives for the state before it.
\<close>

definition linked :: "(int \<Rightarrow> 'c neighbor list) \<Rightarrow> int list \<Rightarrow> bool" where
  "linked nb path = successively (\<lambda>s t. t \<in> fst ` set (nb s)) path"

definition search_path ::
  "(int \<Rightarrow> 'c neighbor list) \<Rightarrow> int list \<Rightarrow> int list \<Rightarrow> int list \<Rightarrow> bool" where
  "search_path nb sources goals path =
     (path \<noteq> [] \<and> hd path \<in> set sources \<and> last path \<in> set goals \<and> linked nb path)"

subsection \<open>States and their voxels\<close>

text \<open>
  The usual case of \<open>get_neighbors_torsion\<close> starts by decoding its state into the
  root voxel and the two connectivity indices, and by walking the two moves from the
  root. The next two definitions are these lines on their own: the indices
  \<open>(root, e1, e2)\<close> of a state and its chain of three voxels.
\<close>

definition edgepair_indices :: "connectivity \<Rightarrow> int \<Rightarrow> int \<times> int \<times> int" where
  "edgepair_indices conn ep =
     (let (root, edgepair_id) = decompose_pair_of_edgepairs conn ep;
          (e1, e2) = decompose_edgepair conn edgepair_id
      in (root, e1, e2))"

definition edgepair_chain :: "grid \<Rightarrow> connectivity \<Rightarrow> int \<Rightarrow> point \<times> point \<times> point" where
  "edgepair_chain g conn ep =
     (let (root, e1, e2) = edgepair_indices conn ep;
          p1 = ind2sub g root;
          p2 = move conn p1 e1;
          p3 = move conn p2 e2
      in (p1, p2, p3))"

text \<open>
  A state lies in the grid when it is one of the \<open>num_edges\<close> state numbers and the two
  moves of its chain stay inside the image: the two \<open>validind\<close> tests that the loop
  building the start and end sets makes before it admits a pair.
\<close>

definition in_grid :: "grid \<Rightarrow> connectivity \<Rightarrow> int \<Rightarrow> bool" where
  "in_grid g conn ep =
     (0 \<le> ep \<and> ep < num_edges g conn \<and>
      (case edgepair_chain g conn ep of (p1, p2, p3) \<Rightarrow> validind_pt g p2 \<and> validind_pt g p3))"

text \<open>One move of the connectivity template leads from voxel \<open>p\<close> to voxel \<open>q\<close>.\<close>

definition template_move :: "connectivity \<Rightarrow> point \<Rightarrow> point \<Rightarrow> bool" where
  "template_move conn p q = (q \<in> move conn p ` set [0 .. conn_M conn - 1])"

section \<open>Local refinement (local\_optimization\_mex.cpp, mexFunction\_main)\<close>



datatype Unary_type = Trilinear | Linear










section \<open>Notions and examples used in the statements\<close>

subsection \<open>Notions\<close>

text \<open>
  The pair numbers that the loop over the voxels admits at voxel \<open>p1\<close> for the moves
  \<open>e1\<close> and \<open>e2\<close>, under a test \<open>lab\<close> of the labels of the first and third voxel.
\<close>

definition admits ::
  "grid \<Rightarrow> connectivity \<Rightarrow> (point \<Rightarrow> point \<Rightarrow> bool) \<Rightarrow> point \<Rightarrow> int \<Rightarrow> int \<Rightarrow> int set" where
  "admits g conn lab p1 e1 e2 =
     (if validind_pt g (move conn p1 e1) \<and> p1 \<noteq> move conn (move conn p1 e1) e2 \<and>
         validind_pt g (move conn (move conn p1 e1) e2) \<and>
         lab p1 (move conn (move conn p1 e1) e2)
      then {sub2ind_pt g p1 * (conn_M conn * conn_M conn) + conn_M conn * e1 + e2} else {})"


text \<open>
  An engine for the examples: it returns a fixed state path (the neighbor function is
  not consulted).
\<close>

definition fixed_engine :: "'c \<Rightarrow> int list \<Rightarrow> 'c shortest_path" where
  "fixed_engine c path n sources goals nb = (c, path)"


subsection \<open>Example inputs\<close>

text \<open>Example arguments: a planar 5 x 5 image with all three penalties set.\<close>

definition planar_settings :: InstanceSettings where
  "planar_settings =
     \<lparr>length_penalty = 1, curvature_penalty = 2, torsion_penalty = 3,
      curvature_power = 2, torsion_power = 2, regularization_radius = 4,
      store_visit_time = False\<rparr>"

definition planar_args :: mex_args where
  "planar_args =
     \<lparr>nlhs = 1, nrhs = 4,
      mesh_ndim = 2, mesh_M = 5, mesh_N = 5, mesh_O = 1,
      unary_ndim = 2, unary_M = 5, unary_N = 5, unary_O = 1,
      connectivity_N = 3, connectivity_ndim = 2,
      settings = planar_settings,
      voxeldimensions = [],
      start_sets_cell = None, end_sets_cell = None\<rparr>"




definition tagged_costs :: "int cost_functors" where
  "tagged_costs =
     \<lparr>evaluate_line_integral = (\<lambda>p q. 1),
      length_cost = (\<lambda>p q. 10),
      curvature_cost = (\<lambda>p q r. 100),
      torsion_cost = (\<lambda>p q r s. 1000)\<rparr>"


text \<open>
  A 5 x 1 x 2 volume with the six axis offsets. The start voxel is \<open>(0,0,0)\<close>, the end
  voxel \<open>(4,0,0)\<close>, and every voxel of the plane \<open>x = 2\<close> between them is blocked.
\<close>

definition corridor_grid :: grid where
  "corridor_grid = \<lparr>dim_M = 5, dim_N = 1, dim_O = 2\<rparr>"

definition six_conn :: connectivity where
  "six_conn = [(1, 0, 0), (- 1, 0, 0), (0, 1, 0), (0, - 1, 0), (0, 0, 1), (0, 0, - 1)]"

definition walled_mesh :: mesh_map where
  "walled_mesh p =
     (if p = (0, 0, 0) then 2 else if p = (4, 0, 0) then 3 else if fst p = 2 then 0 else 1)"




section \<open>Facts about the grid index\<close>

lemma sdiv_nonneg_eq_div: "0 \<le> a \<Longrightarrow> 0 \<le> b \<Longrightarrow> (a::int) sdiv b = a div b"
  by (cases "a = 0"; cases "b = 0") (simp_all add: signed_divide_int_def sgn_if)

lemma smod_nonneg_eq_mod: "0 \<le> a \<Longrightarrow> 0 \<le> b \<Longrightarrow> (a::int) smod b = a mod b"
  by (cases "a = 0"; cases "b = 0") (simp_all add: signed_modulo_int_def sgn_if)

lemma make_point_eq_ind2sub: "make_point g n = ind2sub g n"
  by (simp add: make_point_def ind2sub_def)

lemma sub2ind_ind2sub: "(case ind2sub g n of (x, y, z) \<Rightarrow> sub2ind g x y z) = n"
  by (simp add: ind2sub_def sub2ind_def Let_def)

lemma validind_iff:
  "validind g x y z \<longleftrightarrow> 0 \<le> x \<and> x < dim_M g \<and> 0 \<le> y \<and> y < dim_N g \<and> 0 \<le> z \<and> z < dim_O g"
  by (auto simp add: validind_def)

lemma div_less_of_less_mult:
  assumes "r < n * m" "0 < (m::int)"
  shows "r div m < n"
proof (rule ccontr)
  assume "\<not> r div m < n"
  then have "n \<le> r div m" by simp
  with assms(2) have "n * m \<le> (r div m) * m" by (simp only: mult_right_mono)
  also have "\<dots> = r - r mod m" by (simp add: minus_mod_eq_div_mult)
  also have "\<dots> \<le> r" using assms(2) by simp
  finally show False using assms(1) by simp
qed

lemma div_add_mult_self: "0 \<le> (r::int) \<Longrightarrow> r < m \<Longrightarrow> (r + z * m) div m = z"
  by simp

lemma plane_index_bounds:
  assumes "0 \<le> x" "x < m" "0 \<le> y" "y < n"
  shows "0 \<le> x + y * m" and "x + y * (m::int) < m * n"
proof -
  from assms(1,2) have m: "0 < m" by linarith
  with assms show "0 \<le> x + y * m" by simp
  from assms have "y + 1 \<le> n" by simp
  with m have "(y + 1) * m \<le> n * m" by (simp only: mult_right_mono)
  with assms show "x + y * m < m * n" by (simp add: algebra_simps)
qed

lemma ind2sub_sub2ind:
  assumes v: "validind g x y z"
  shows "ind2sub g (sub2ind g x y z) = (x, y, z)"
proof -
  from v have b: "0 \<le> x" "x < dim_M g" "0 \<le> y" "y < dim_N g" "0 \<le> z"
    by (simp_all add: validind_iff)
  let ?m = "dim_M g" and ?n = "dim_N g"
  have m: "0 < ?m" and n: "0 < ?n" using b by linarith+
  have mn: "0 < ?m * ?n" using m n by simp
  have r: "0 \<le> x + y * ?m" "x + y * ?m < ?m * ?n"
    using plane_index_bounds [OF b(1-4)] by simp_all
  have idx: "sub2ind g x y z = (x + y * ?m) + z * (?m * ?n)"
    by (simp add: sub2ind_def algebra_simps)
  have nonneg: "0 \<le> sub2ind g x y z"
    unfolding idx using r(1) b(5) mn by simp
  have zq: "sub2ind g x y z sdiv (?m * ?n) = z"
  proof -
    have "sub2ind g x y z sdiv (?m * ?n) = sub2ind g x y z div (?m * ?n)"
      using nonneg mn by (simp add: sdiv_nonneg_eq_div)
    also have "\<dots> = z"
      unfolding idx using r by (rule div_add_mult_self)
    finally show ?thesis .
  qed
  have rest: "sub2ind g x y z - z * ?m * ?n = x + y * ?m"
    by (simp add: sub2ind_def algebra_simps)
  have yq: "(x + y * ?m) sdiv ?m = y"
  proof -
    have "(x + y * ?m) sdiv ?m = (x + y * ?m) div ?m"
      using r(1) m by (simp add: sdiv_nonneg_eq_div)
    also have "\<dots> = y"
      using b(1,2) by (rule div_add_mult_self)
    finally show ?thesis .
  qed
  show ?thesis
    by (simp add: ind2sub_def Let_def zq rest yq) (simp add: sub2ind_def)
qed

lemma ind2sub_valid:
  assumes n: "0 \<le> n" "n < dim_M g * dim_N g * dim_O g"
    and d: "0 < dim_M g" "0 < dim_N g"
  shows "case ind2sub g n of (x, y, z) \<Rightarrow> validind g x y z"
proof -
  let ?m = "dim_M g" and ?n = "dim_N g"
  have mn: "0 < ?m * ?n" using d by simp
  define z where "z = n div (?m * ?n)"
  define r where "r = n mod (?m * ?n)"
  define y where "y = r div ?m"
  have zs: "n sdiv (?m * ?n) = z"
    using n mn by (simp add: sdiv_nonneg_eq_div z_def)
  have r: "n - z * ?m * ?n = r"
    unfolding z_def r_def by (simp add: minus_div_mult_eq_mod mult.assoc)
  have rb: "0 \<le> r" "r < ?m * ?n"
    using mn by (simp_all add: r_def)
  have ys: "r sdiv ?m = y"
    using rb d by (simp add: sdiv_nonneg_eq_div y_def)
  have x: "n - y * ?m - z * ?m * ?n = r mod ?m"
    using r by (simp add: y_def minus_div_mult_eq_mod algebra_simps)
  have xb: "0 \<le> r mod ?m" "r mod ?m < ?m"
    using d by simp_all
  have yb: "0 \<le> y" "y < ?n"
  proof -
    show "0 \<le> y" using rb d by (simp add: y_def pos_imp_zdiv_nonneg_iff)
    have "r < ?n * ?m" using rb by (simp add: mult.commute)
    then show "y < ?n" unfolding y_def using d(1) by (rule div_less_of_less_mult)
  qed
  have zb: "0 \<le> z" "z < dim_O g"
  proof -
    show "0 \<le> z" using n mn by (simp add: z_def pos_imp_zdiv_nonneg_iff)
    have "n < dim_O g * (?m * ?n)" using n by (simp add: algebra_simps)
    then show "z < dim_O g" unfolding z_def using mn by (rule div_less_of_less_mult)
  qed
  show ?thesis
    by (simp add: ind2sub_def Let_def zs r ys x validind_iff xb yb zb)
qed


lemma ind2sub_sub2ind_pt: "validind_pt g p \<Longrightarrow> ind2sub g (sub2ind_pt g p) = p"
  by (cases p) (simp add: validind_pt_def sub2ind_pt_def ind2sub_sub2ind)

lemma sub2ind_pt_ind2sub: "sub2ind_pt g (ind2sub g n) = n"
  using sub2ind_ind2sub [of g n] by (simp add: sub2ind_pt_def)

lemma validind_pt_dims:
  assumes "validind_pt g p"
  shows "0 < dim_M g" "0 < dim_N g" "0 < dim_O g"
  using assms by (cases p; simp add: validind_pt_def validind_iff; linarith)+

lemma ind2sub_valid_pt:
  assumes "0 \<le> n" "n < numel g" "0 < dim_M g" "0 < dim_N g"
  shows "validind_pt g (ind2sub g n)"
  using ind2sub_valid [of n g] assms by (simp add: numel_def validind_pt_def)

section \<open>Facts about the entry point\<close>

lemma mexFunction_Inr:
  assumes "mexFunction a = Inr d"
  shows "passed_settings d =
           (if mesh_ndim a = 2 \<and> torsion_penalty (settings a) \<noteq> 0
            then (settings a)\<lparr>torsion_penalty := 0\<rparr> else settings a)"
    and "printed d =
           (if mesh_ndim a = 2 \<and> torsion_penalty (settings a) \<noteq> 0
            then [torsion_warning] else [])"
    and "called d =
           (if torsion_penalty (passed_settings d) \<noteq> 0 then EdgepairSegmentation
            else if curvature_penalty (passed_settings d) \<noteq> 0 then EdgeSegmentation
            else NodeSegmentation)"
  using assms
  by (auto simp add: mexFunction_def Let_def split: if_splits sum.splits)

lemma mexFunction_zero_torsion:
  assumes "mesh_ndim a = 2" "0 < torsion_penalty (settings a)"
  shows "mexFunction a =
     map_sum id (\<lambda>d. d\<lparr>printed := [torsion_warning]\<rparr>)
       (mexFunction (a\<lparr>settings := (settings a)\<lparr>torsion_penalty := 0\<rparr>\<rparr>))"
  using assms
  by (simp add: mexFunction_def Let_def split: sum.splits)

section \<open>Facts about the edge-pair lifting\<close>

lemma foldl_usual_body:
  "foldl (usual_body g conn cf p1 p2 p3 e2) acc es =
     acc @ map (\<lambda>e3. (sub2ind_pt g p2 * (conn_M conn * conn_M conn) + (conn_M conn * e2 + e3),
                      evaluate_line_integral cf p3 (move conn p3 e3)
                        + length_cost cf p3 (move conn p3 e3)
                        + torsion_cost cf p1 p2 p3 (move conn p3 e3)
                        + curvature_cost cf p2 p3 (move conn p3 e3)))
             (filter (\<lambda>e3. validind_pt g (move conn p3 e3) \<and> move conn p3 e3 \<noteq> p2) es)"
  by (induction es arbitrary: acc) (auto simp add: usual_body_def Let_def)

lemma foldl_super_body:
  "foldl (super_body g conn cf) acc xs =
     acc @ map (\<lambda>itr. case points_in_a_edgepair g conn itr of (q1, q2, q3) \<Rightarrow>
                  (itr, evaluate_line_integral cf (ind2sub g q1) (ind2sub g q2)
                        + evaluate_line_integral cf (ind2sub g q2) (ind2sub g q3)
                        + curvature_cost cf (ind2sub g q1) (ind2sub g q2) (ind2sub g q3)
                        + length_cost cf (ind2sub g q1) (ind2sub g q2)
                        + length_cost cf (ind2sub g q2) (ind2sub g q3))) xs"
  by (induction xs arbitrary: acc) (auto simp add: super_body_def Let_def split: prod.splits)

lemma smod_add_mult:
  assumes "0 \<le> (r::int)" "r < m" "0 \<le> z"
  shows "(z * m + r) sdiv m = z" "(z * m + r) smod m = r"
proof -
  from assms have m: "0 < m" by linarith
  have nn: "0 \<le> z * m + r" using assms m by simp
  show "(z * m + r) sdiv m = z"
    using nn m assms by (simp add: sdiv_nonneg_eq_div)
  show "(z * m + r) smod m = r"
    using nn m assms by (simp add: smod_nonneg_eq_mod)
qed

lemma decompose_edgepair_encode:
  assumes "0 \<le> e1" "0 \<le> e2" "e2 < conn_M conn"
  shows "decompose_edgepair conn (conn_M conn * e1 + e2) = (e1, e2)"
  using smod_add_mult [OF assms(2,3,1)]
  by (simp add: decompose_edgepair_def Let_def mult.commute)

lemma pair_id_bounds:
  assumes "0 \<le> e1" "e1 < k" "0 \<le> e2" "e2 < (k::int)"
  shows "0 \<le> k * e1 + e2" "k * e1 + e2 < k * k"
  using plane_index_bounds [OF assms(3,4,1,2)] by (simp_all add: algebra_simps)

lemma decompose_pair_of_edgepairs_encode:
  assumes "0 \<le> n" "0 \<le> e1" "e1 < conn_M conn" "0 \<le> e2" "e2 < conn_M conn"
  shows "decompose_pair_of_edgepairs conn (n * (conn_M conn * conn_M conn) + conn_M conn * e1 + e2)
           = (n, conn_M conn * e1 + e2)"
  using smod_add_mult [OF pair_id_bounds [OF assms(2-5)] assms(1)]
  by (simp add: decompose_pair_of_edgepairs_def Let_def add.assoc)

lemma edgepair_indices_range:
  assumes "0 \<le> ep" "0 < conn_M conn"
  shows "case edgepair_indices conn ep of (rt, e1, e2) \<Rightarrow>
           0 \<le> rt \<and> 0 \<le> e1 \<and> e1 < conn_M conn \<and> 0 \<le> e2 \<and> e2 < conn_M conn \<and>
           ep = rt * (conn_M conn * conn_M conn) + conn_M conn * e1 + e2"
proof -
  let ?k = "conn_M conn"
  have kk: "0 < ?k * ?k" using assms(2) by simp
  define i where "i = ep mod (?k * ?k)"
  have i: "0 \<le> i" "i < ?k * ?k" using kk by (simp_all add: i_def)
  have d1: "decompose_pair_of_edgepairs conn ep = (ep div (?k * ?k), i)"
    using assms kk by (simp add: decompose_pair_of_edgepairs_def Let_def i_def
        sdiv_nonneg_eq_div smod_nonneg_eq_mod)
  have d2: "decompose_edgepair conn i = (i div ?k, i mod ?k)"
    using i assms(2) by (simp add: decompose_edgepair_def Let_def
        sdiv_nonneg_eq_div smod_nonneg_eq_mod)
  have r: "0 \<le> ep div (?k * ?k)"
    using assms(1) kk by (simp add: pos_imp_zdiv_nonneg_iff)
  have e1: "0 \<le> i div ?k" "i div ?k < ?k"
  proof -
    show "0 \<le> i div ?k" using i assms(2) by (simp add: pos_imp_zdiv_nonneg_iff)
    show "i div ?k < ?k" using i(2) assms(2) by (rule div_less_of_less_mult)
  qed
  have e2: "0 \<le> i mod ?k" "i mod ?k < ?k" using assms(2) by simp_all
  have a: "ep = ep div (?k * ?k) * (?k * ?k) + i"
    unfolding i_def by (rule div_mult_mod_eq [symmetric])
  have b: "i = ?k * (i div ?k) + i mod ?k"
    by (rule mult_div_mod_eq [symmetric])
  have eq: "ep = ep div (?k * ?k) * (?k * ?k) + ?k * (i div ?k) + i mod ?k"
    using a b by linarith
  show ?thesis
    using r e1 e2 eq by (simp add: edgepair_indices_def d1 d2)
qed

lemma edgepair_indices_encode:
  assumes "0 \<le> n" "0 \<le> e1" "e1 < conn_M conn" "0 \<le> e2" "e2 < conn_M conn"
  shows "edgepair_indices conn (n * (conn_M conn * conn_M conn) + conn_M conn * e1 + e2) = (n, e1, e2)"
  using decompose_pair_of_edgepairs_encode [OF assms] decompose_edgepair_encode [OF assms(2,4,5)]
  by (simp add: edgepair_indices_def)

lemma encode_less_num_edges:
  assumes "0 \<le> n" "n < numel g" "0 \<le> e1" "e1 < conn_M conn" "0 \<le> e2" "e2 < conn_M conn"
  shows "0 \<le> n * (conn_M conn * conn_M conn) + conn_M conn * e1 + e2"
    and "n * (conn_M conn * conn_M conn) + conn_M conn * e1 + e2 < num_edges g conn"
proof -
  let ?k = "conn_M conn"
  note b = pair_id_bounds [OF assms(3-6)]
  have "0 \<le> (?k * e1 + e2) + n * (?k * ?k)" "(?k * e1 + e2) + n * (?k * ?k) < (?k * ?k) * numel g"
    using plane_index_bounds [OF b assms(1,2)] by simp_all
  then show "0 \<le> n * (?k * ?k) + ?k * e1 + e2"
    and "n * (?k * ?k) + ?k * e1 + e2 < num_edges g conn"
    by (simp_all add: num_edges_def Let_def algebra_simps)
qed

lemma root_less_numel:
  assumes "rt * (k * k) + r < (k * k) * n" "0 \<le> r" "0 < (k::int)"
  shows "rt < n"
proof (rule ccontr)
  assume "\<not> rt < n"
  then have "n \<le> rt" by simp
  moreover have "0 < k * k" using assms(3) by simp
  ultimately have "n * (k * k) \<le> rt * (k * k)" by (simp only: mult_right_mono less_imp_le)
  with assms(1,2) show False by (simp add: algebra_simps)
qed

lemma points_in_a_edgepair_chain:
  "points_in_a_edgepair g conn ep =
     (case edgepair_indices conn ep of (rt, e1, e2) \<Rightarrow>
      case edgepair_chain g conn ep of (p1, p2, p3) \<Rightarrow> (rt, sub2ind_pt g p2, sub2ind_pt g p3))"
  by (simp add: points_in_a_edgepair_def edgepair_chain_def edgepair_indices_def Let_def
      split: prod.splits)

lemma get_neighbors_torsion_usual:
  assumes "ep \<noteq> e_super"
  shows "get_neighbors_torsion g conn cf S e_super ep =
     (case edgepair_indices conn ep of (rt, e1, e2) \<Rightarrow>
      case edgepair_chain g conn ep of (p1, p2, p3) \<Rightarrow>
        map (\<lambda>e3. (sub2ind_pt g p2 * (conn_M conn * conn_M conn) + (conn_M conn * e2 + e3),
                    evaluate_line_integral cf p3 (move conn p3 e3)
                      + length_cost cf p3 (move conn p3 e3)
                      + torsion_cost cf p1 p2 p3 (move conn p3 e3)
                      + curvature_cost cf p2 p3 (move conn p3 e3)))
          (filter (\<lambda>e3. validind_pt g (move conn p3 e3) \<and> move conn p3 e3 \<noteq> p2)
             [0 .. conn_M conn - 1]))"
  using assms
  by (simp add: get_neighbors_torsion_def edgepair_chain_def edgepair_indices_def Let_def
      foldl_usual_body split: prod.splits)

lemma in_grid_facts:
  assumes "in_grid g conn ep"
  obtains rt e1 e2 p1 p2 p3 where
    "edgepair_indices conn ep = (rt, e1, e2)"
    "edgepair_chain g conn ep = (p1, p2, p3)"
    "p1 = ind2sub g rt" "p2 = move conn p1 e1" "p3 = move conn p2 e2"
    "0 \<le> rt" "rt < numel g" "0 \<le> e1" "e1 < conn_M conn" "0 \<le> e2" "e2 < conn_M conn"
    "validind_pt g p1" "validind_pt g p2" "validind_pt g p3"
    "ep = rt * (conn_M conn * conn_M conn) + conn_M conn * e1 + e2"
proof -
  obtain rt e1 e2 where ix: "edgepair_indices conn ep = (rt, e1, e2)"
    by (cases "edgepair_indices conn ep")
  define p1 where "p1 = ind2sub g rt"
  define p2 where "p2 = move conn p1 e1"
  define p3 where "p3 = move conn p2 e2"
  have ch: "edgepair_chain g conn ep = (p1, p2, p3)"
    by (simp add: edgepair_chain_def ix p1_def p2_def p3_def Let_def)
  from assms have ep: "0 \<le> ep" "ep < num_edges g conn"
    and v: "validind_pt g p2" "validind_pt g p3"
    by (simp_all add: in_grid_def ch)
  have k: "0 < conn_M conn"
  proof (rule ccontr)
    assume "\<not> 0 < conn_M conn"
    then have "conn_M conn = 0" by (simp add: conn_M_def)
    with ep show False by (simp add: num_edges_def)
  qed
  from edgepair_indices_range [OF ep(1) k]
  have r: "0 \<le> rt" "0 \<le> e1" "e1 < conn_M conn" "0 \<le> e2" "e2 < conn_M conn"
    "ep = rt * (conn_M conn * conn_M conn) + conn_M conn * e1 + e2"
    by (simp_all add: ix)
  have "rt * (conn_M conn * conn_M conn) + (conn_M conn * e1 + e2)
          < (conn_M conn * conn_M conn) * numel g"
    using ep(2) r(6) by (simp add: num_edges_def Let_def add.assoc)
  moreover have "0 \<le> conn_M conn * e1 + e2" using r k by simp
  ultimately have rn: "rt < numel g" using k by (rule root_less_numel)
  have v1: "validind_pt g p1"
    unfolding p1_def using r(1) rn validind_pt_dims(1,2) [OF v(1)] by (rule ind2sub_valid_pt)
  show thesis
    using that [OF ix ch p1_def p2_def p3_def r(1) rn r(2-5) v1 v r(6)] .
qed


lemma foldl_collect:
  assumes "\<And>acc x. F (f acc x) = F acc \<union> A x"
  shows "F (foldl f acc xs) = F acc \<union> (\<Union>x \<in> set xs. A x)"
  by (induction xs arbitrary: acc) (auto simp add: assms)


lemma set_set_insert: "set (set_insert x xs) = insert x (set xs)"
  by (simp add: set_insert_def set_insort_insert)


lemma pair_body_sets:
  "set (fst (pair_body g conn mesh p1 e1 (move conn p1 e1) sets e2)) =
     set (fst sets) \<union>
     (if validind_pt g (move conn p1 e1) then admits g conn (\<lambda>p q. mesh p = 2) p1 e1 e2
      else if p1 \<noteq> move conn (move conn p1 e1) e2 \<and>
              validind_pt g (move conn (move conn p1 e1) e2) \<and> mesh p1 = 2
      then {sub2ind_pt g p1 * (conn_M conn * conn_M conn) + conn_M conn * e1 + e2} else {})"
  "set (snd (pair_body g conn mesh p1 e1 (move conn p1 e1) sets e2)) =
     set (snd sets) \<union>
     (if validind_pt g (move conn p1 e1) then admits g conn (\<lambda>p q. mesh q = 3) p1 e1 e2
      else if p1 \<noteq> move conn (move conn p1 e1) e2 \<and>
              validind_pt g (move conn (move conn p1 e1) e2) \<and>
              mesh (move conn (move conn p1 e1) e2) = 3
      then {sub2ind_pt g p1 * (conn_M conn * conn_M conn) + conn_M conn * e1 + e2} else {})"
  by (cases sets; simp add: pair_body_def Let_def set_set_insert admits_def)+

lemma edge_body_sets:
  "set (fst (edge_body g conn mesh p1 sets e1)) =
     set (fst sets) \<union> (\<Union>e2 \<in> {0 .. conn_M conn - 1}. admits g conn (\<lambda>p q. mesh p = 2) p1 e1 e2)"
  "set (snd (edge_body g conn mesh p1 sets e1)) =
     set (snd sets) \<union> (\<Union>e2 \<in> {0 .. conn_M conn - 1}. admits g conn (\<lambda>p q. mesh q = 3) p1 e1 e2)"
proof -
  show "set (fst (edge_body g conn mesh p1 sets e1)) =
     set (fst sets) \<union> (\<Union>e2 \<in> {0 .. conn_M conn - 1}. admits g conn (\<lambda>p q. mesh p = 2) p1 e1 e2)"
  proof (cases "validind_pt g (move conn p1 e1)")
    case True
    then show ?thesis
      using foldl_collect [where F = "\<lambda>s. set (fst s)"
          and f = "pair_body g conn mesh p1 e1 (move conn p1 e1)", OF pair_body_sets(1)]
      by (simp add: edge_body_def Let_def)
  next
    case False
    then show ?thesis by (simp add: edge_body_def Let_def admits_def)
  qed
  show "set (snd (edge_body g conn mesh p1 sets e1)) =
     set (snd sets) \<union> (\<Union>e2 \<in> {0 .. conn_M conn - 1}. admits g conn (\<lambda>p q. mesh q = 3) p1 e1 e2)"
  proof (cases "validind_pt g (move conn p1 e1)")
    case True
    then show ?thesis
      using foldl_collect [where F = "\<lambda>s. set (snd s)"
          and f = "pair_body g conn mesh p1 e1 (move conn p1 e1)", OF pair_body_sets(2)]
      by (simp add: edge_body_def Let_def)
  next
    case False
    then show ?thesis by (simp add: edge_body_def Let_def admits_def)
  qed
qed

lemma voxel_body_sets:
  "set (fst (voxel_body g conn mesh sets n)) =
     set (fst sets) \<union>
     (\<Union>e1 \<in> {0 .. conn_M conn - 1}. \<Union>e2 \<in> {0 .. conn_M conn - 1}.
        admits g conn (\<lambda>p q. mesh p = 2) (ind2sub g n) e1 e2)"
  "set (snd (voxel_body g conn mesh sets n)) =
     set (snd sets) \<union>
     (\<Union>e1 \<in> {0 .. conn_M conn - 1}. \<Union>e2 \<in> {0 .. conn_M conn - 1}.
        admits g conn (\<lambda>p q. mesh q = 3) (ind2sub g n) e1 e2)"
  using foldl_collect [where F = "\<lambda>s. set (fst s)"
      and f = "edge_body g conn mesh (ind2sub g n)", OF edge_body_sets(1)]
    foldl_collect [where F = "\<lambda>s. set (snd s)"
      and f = "edge_body g conn mesh (ind2sub g n)", OF edge_body_sets(2)]
  by (simp_all add: voxel_body_def Let_def)

lemma start_end_set_pairs_sets:
  "set (fst (start_end_set_pairs g conn mesh)) =
     (\<Union>n \<in> {0 .. numel g - 1}. \<Union>e1 \<in> {0 .. conn_M conn - 1}. \<Union>e2 \<in> {0 .. conn_M conn - 1}.
        admits g conn (\<lambda>p q. mesh p = 2) (ind2sub g n) e1 e2)"
  "set (snd (start_end_set_pairs g conn mesh)) =
     (\<Union>n \<in> {0 .. numel g - 1}. \<Union>e1 \<in> {0 .. conn_M conn - 1}. \<Union>e2 \<in> {0 .. conn_M conn - 1}.
        admits g conn (\<lambda>p q. mesh q = 3) (ind2sub g n) e1 e2)"
  using foldl_collect [where F = "\<lambda>s. set (fst s)"
      and f = "voxel_body g conn mesh", OF voxel_body_sets(1)]
    foldl_collect [where F = "\<lambda>s. set (snd s)"
      and f = "voxel_body g conn mesh", OF voxel_body_sets(2)]
  by (simp_all add: start_end_set_pairs_def)

lemma admits_iff:
  "ep \<in> (\<Union>n \<in> {0 .. numel g - 1}. \<Union>e1 \<in> {0 .. conn_M conn - 1}. \<Union>e2 \<in> {0 .. conn_M conn - 1}.
           admits g conn lab (ind2sub g n) e1 e2)
   \<longleftrightarrow> in_grid g conn ep \<and>
        (case edgepair_chain g conn ep of (p1, p2, p3) \<Rightarrow> p1 \<noteq> p3 \<and> lab p1 p3)"
  (is "?L \<longleftrightarrow> ?R")
proof
  let ?k = "conn_M conn"
  assume ?L
  then obtain n e1 e2 where r: "0 \<le> n" "n < numel g" "0 \<le> e1" "e1 < ?k" "0 \<le> e2" "e2 < ?k"
    and m: "ep \<in> admits g conn lab (ind2sub g n) e1 e2"
    by auto
  define p1 where "p1 = ind2sub g n"
  define p2 where "p2 = move conn p1 e1"
  define p3 where "p3 = move conn p2 e2"
  from m have c: "validind_pt g p2" "p1 \<noteq> p3" "validind_pt g p3" "lab p1 p3"
    and ep: "ep = n * (?k * ?k) + ?k * e1 + e2"
    by (simp_all add: admits_def p1_def p2_def p3_def sub2ind_pt_ind2sub split: if_splits)
  have ix: "edgepair_indices conn ep = (n, e1, e2)"
    unfolding ep using r(1,3-6) by (rule edgepair_indices_encode)
  have ch: "edgepair_chain g conn ep = (p1, p2, p3)"
    by (simp add: edgepair_chain_def ix Let_def p1_def p2_def p3_def)
  have "0 \<le> ep" "ep < num_edges g conn"
    unfolding ep using encode_less_num_edges [OF r] by simp_all
  then show ?R using c by (simp add: in_grid_def ch)
next
  assume R: ?R
  then have "in_grid g conn ep" by simp
  then show ?L
  proof (rule in_grid_facts)
    fix rt e1 e2 p1 p2 p3
    assume ch: "edgepair_chain g conn ep = (p1, p2, p3)"
      and p: "p1 = ind2sub g rt" "p2 = move conn p1 e1" "p3 = move conn p2 e2"
      and r: "0 \<le> rt" "rt < numel g" "0 \<le> e1" "e1 < conn_M conn" "0 \<le> e2" "e2 < conn_M conn"
      and v: "validind_pt g p2" "validind_pt g p3"
      and ep: "ep = rt * (conn_M conn * conn_M conn) + conn_M conn * e1 + e2"
    from R ch have l: "p1 \<noteq> p3" "lab p1 p3" by simp_all
    have "ep \<in> admits g conn lab (ind2sub g rt) e1 e2"
      using v l p ep by (simp add: admits_def sub2ind_pt_ind2sub)
    moreover have "rt \<in> {0 .. numel g - 1}" "e1 \<in> {0 .. conn_M conn - 1}"
      "e2 \<in> {0 .. conn_M conn - 1}"
      using r by simp_all
    ultimately show ?L by blast
  qed
qed

lemma start_set_pairs_iff:
  "ep \<in> set (fst (start_end_set_pairs g conn mesh)) \<longleftrightarrow>
     in_grid g conn ep \<and>
     (case edgepair_chain g conn ep of (p1, p2, p3) \<Rightarrow> p1 \<noteq> p3 \<and> mesh p1 = 2)"
  unfolding start_end_set_pairs_sets by (rule admits_iff)

lemma end_set_pairs_iff:
  "ep \<in> set (snd (start_end_set_pairs g conn mesh)) \<longleftrightarrow>
     in_grid g conn ep \<and>
     (case edgepair_chain g conn ep of (p1, p2, p3) \<Rightarrow> p1 \<noteq> p3 \<and> mesh p3 = 3)"
  unfolding start_end_set_pairs_sets by (rule admits_iff)


lemma in_gridD:
  assumes ig: "in_grid g conn ep"
    and ix: "edgepair_indices conn ep = (rt, e1, e2)"
    and ch: "edgepair_chain g conn ep = (p1, p2, p3)"
  shows "p1 = ind2sub g rt \<and> p2 = move conn p1 e1 \<and> p3 = move conn p2 e2 \<and>
         0 \<le> rt \<and> rt < numel g \<and> 0 \<le> e1 \<and> e1 < conn_M conn \<and> 0 \<le> e2 \<and> e2 < conn_M conn \<and>
         validind_pt g p1 \<and> validind_pt g p2 \<and> validind_pt g p3 \<and>
         ep = rt * (conn_M conn * conn_M conn) + conn_M conn * e1 + e2"
  using ig
proof (rule in_grid_facts)
  fix rt' e1' e2' q1 q2 q3
  assume "edgepair_indices conn ep = (rt', e1', e2')"
    "edgepair_chain g conn ep = (q1, q2, q3)"
    "q1 = ind2sub g rt'" "q2 = move conn q1 e1'" "q3 = move conn q2 e2'"
    "0 \<le> rt'" "rt' < numel g" "0 \<le> e1'" "e1' < conn_M conn" "0 \<le> e2'" "e2' < conn_M conn"
    "validind_pt g q1" "validind_pt g q2" "validind_pt g q3"
    "ep = rt' * (conn_M conn * conn_M conn) + conn_M conn * e1' + e2'"
  then show ?thesis using ix ch by simp
qed

lemma in_grid_points:
  assumes ig: "in_grid g conn ep" and ch: "edgepair_chain g conn ep = (p1, p2, p3)"
  shows "points_in_a_edgepair g conn ep = (sub2ind_pt g p1, sub2ind_pt g p2, sub2ind_pt g p3)"
    and "validind_pt g p1" "validind_pt g p2" "validind_pt g p3"
    and "template_move conn p1 p2" "template_move conn p2 p3"
proof -
  obtain rt e1 e2 where ix: "edgepair_indices conn ep = (rt, e1, e2)"
    by (cases "edgepair_indices conn ep")
  note d = in_gridD [OF ig ix ch]
  from d show "validind_pt g p1" "validind_pt g p2" "validind_pt g p3" by blast+
  from d have "p1 = ind2sub g rt" by blast
  then have "sub2ind_pt g p1 = rt"
    by (simp add: sub2ind_pt_ind2sub)
  then show "points_in_a_edgepair g conn ep = (sub2ind_pt g p1, sub2ind_pt g p2, sub2ind_pt g p3)"
    by (simp add: points_in_a_edgepair_chain ix ch)
  from d have "0 \<le> e1 \<and> e1 < conn_M conn" "0 \<le> e2 \<and> e2 < conn_M conn" by blast+
  then have "e1 \<in> set [0 .. conn_M conn - 1]" "e2 \<in> set [0 .. conn_M conn - 1]"
    by simp_all
  moreover from d have "p2 = move conn p1 e1" "p3 = move conn p2 e2" by blast+
  ultimately show "template_move conn p1 p2" "template_move conn p2 p3"
    unfolding template_move_def by blast+
qed


lemma pairpath_to_points_in_grid:
  assumes "\<forall>t \<in> set path. in_grid g conn t"
  shows "pairpath_to_points g conn path =
     (case path of [] \<Rightarrow> [] | s # _ \<Rightarrow> [fst (edgepair_chain g conn s), fst (snd (edgepair_chain g conn s))])
     @ map (\<lambda>t. snd (snd (edgepair_chain g conn t))) path"
proof -
  have pt: "points_in_a_edgepair g conn t =
      (sub2ind_pt g (fst (edgepair_chain g conn t)),
       sub2ind_pt g (fst (snd (edgepair_chain g conn t))),
       sub2ind_pt g (snd (snd (edgepair_chain g conn t))))"
    and v: "validind_pt g (fst (edgepair_chain g conn t))"
       "validind_pt g (fst (snd (edgepair_chain g conn t)))"
       "validind_pt g (snd (snd (edgepair_chain g conn t)))"
    if "t \<in> set path" for t
    using in_grid_points [of g conn t] assms that
    by (cases "edgepair_chain g conn t"; simp)+
  have third: "map (\<lambda>s. case points_in_a_edgepair g conn s of (_, _, p3) \<Rightarrow> make_point g p3) path
      = map (\<lambda>t. snd (snd (edgepair_chain g conn t))) path"
    by (rule map_cong [OF refl]) (simp add: pt v make_point_eq_ind2sub ind2sub_sub2ind_pt)
  show ?thesis
  proof (cases path)
    case Nil
    then show ?thesis by (simp add: pairpath_to_points_def)
  next
    case (Cons s rest)
    then have s: "s \<in> set path" by simp
    show ?thesis
      using third pt [OF s] v [OF s]
      by (simp add: pairpath_to_points_def Cons make_point_eq_ind2sub ind2sub_sub2ind_pt)
  qed
qed





lemma get_neighbors_torsion_super:
  "get_neighbors_torsion g conn cf S e_super e_super =
     map (\<lambda>itr. case points_in_a_edgepair g conn itr of (q1, q2, q3) \<Rightarrow>
                  (itr, evaluate_line_integral cf (ind2sub g q1) (ind2sub g q2)
                        + evaluate_line_integral cf (ind2sub g q2) (ind2sub g q3)
                        + curvature_cost cf (ind2sub g q1) (ind2sub g q2) (ind2sub g q3)
                        + length_cost cf (ind2sub g q1) (ind2sub g q2)
                        + length_cost cf (ind2sub g q2) (ind2sub g q3))) S"
  by (simp add: get_neighbors_torsion_def foldl_super_body)

lemma super_neighbors_set:
  "fst ` set (get_neighbors_torsion g conn cf S e_super e_super) = set S"
  by (force simp add: get_neighbors_torsion_super split: prod.splits)

text \<open>
  The label map is consulted for the labels 2 and 3 only: two label maps with the same
  start and end voxels give the same query, whatever their other labels are.
\<close>

lemma edgepair_segmentation_labels:
  assumes "\<And>p. (mesh p = 2 \<longleftrightarrow> mesh' p = 2) \<and> (mesh p = 3 \<longleftrightarrow> mesh' p = 3)"
  shows "edgepair_segmentation shortest_path g conn mesh cf =
         edgepair_segmentation shortest_path g conn mesh' cf"
proof -
  have pb: "pair_body g conn mesh = pair_body g conn mesh'"
    by (intro ext) (simp add: pair_body_def Let_def assms split: prod.splits)
  have eb: "edge_body g conn mesh = edge_body g conn mesh'"
    by (intro ext) (simp only: edge_body_def pb)
  have vb: "voxel_body g conn mesh = voxel_body g conn mesh'"
    by (intro ext) (simp only: voxel_body_def eb)
  have "start_end_set_pairs g conn mesh = start_end_set_pairs g conn mesh'"
    by (simp only: start_end_set_pairs_def vb)
  then show ?thesis by (simp add: edgepair_segmentation_def)
qed

section \<open>Facts about the local refinement\<close>





section \<open>Facts about the examples\<close>











lemmas corridor_defs =
  corridor_grid_def six_conn_def tagged_costs_def conn_M_def num_edges_def numel_def
  edgepair_indices_def edgepair_chain_def decompose_pair_of_edgepairs_def decompose_edgepair_def
  signed_divide_int_def signed_modulo_int_def
  ind2sub_def sub2ind_pt_def sub2ind_def move_def connectivity_at_def
  validind_pt_def validind_def in_grid_def upto_rec1

lemma corridor_states:
  "edgepair_chain corridor_grid six_conn 0 = ((0, 0, 0), (1, 0, 0), (2, 0, 0))"
  "edgepair_chain corridor_grid six_conn 36 = ((1, 0, 0), (2, 0, 0), (3, 0, 0))"
  "edgepair_chain corridor_grid six_conn 72 = ((2, 0, 0), (3, 0, 0), (4, 0, 0))"
  "in_grid corridor_grid six_conn 0"
  "in_grid corridor_grid six_conn 36"
  "in_grid corridor_grid six_conn 72"
  "edgepair_indices six_conn 0 = (0, 0, 0)"
  "edgepair_indices six_conn 36 = (1, 0, 0)"
  "num_edges corridor_grid six_conn = 360"
  by (simp_all add: corridor_defs)

lemma corridor_neighbors:
  "get_neighbors_torsion corridor_grid six_conn tagged_costs S 360 0 = [(36, 1111), (40, 1111)]"
  "get_neighbors_torsion corridor_grid six_conn tagged_costs S 360 36 = [(72, 1111), (76, 1111)]"
  by (simp_all add: get_neighbors_torsion_usual corridor_states)
     (simp_all add: corridor_defs)

lemma corridor_search_path:
  "search_path
     (get_neighbors_torsion corridor_grid six_conn tagged_costs
        (fst (start_end_set_pairs corridor_grid six_conn walled_mesh)) 360)
     [360] (snd (start_end_set_pairs corridor_grid six_conn walled_mesh)) [360, 0, 36, 72]"
  by (simp add: search_path_def linked_def super_neighbors_set corridor_neighbors
      start_set_pairs_iff end_set_pairs_iff corridor_states walled_mesh_def)

lemma corridor_decoded:
  "pairpath_to_points corridor_grid six_conn [0, 36, 72] =
     [(0, 0, 0), (1, 0, 0), (2, 0, 0), (3, 0, 0), (4, 0, 0)]"
  using pairpath_to_points_in_grid [of "[0, 36, 72]" corridor_grid six_conn]
  by (simp add: corridor_states)


section \<open>Claims\<close>









text \<open>
  C4, at this input. The super-state reaches a state of the end set through neighbor
  expansions alone, along voxels of which \<open>(2,0,0)\<close> is blocked; the query with an engine
  that returns this state path does not fail but returns the voxels of the path.
\<close>

theorem blocked_voxel_crossed:
  "walled_mesh (2, 0, 0) = 0 \<and> walled_mesh (2, 0, 1) = 0 \<and>
   search_path
     (get_neighbors_torsion corridor_grid six_conn tagged_costs
        (fst (start_end_set_pairs corridor_grid six_conn walled_mesh))
        (num_edges corridor_grid six_conn))
     [num_edges corridor_grid six_conn]
     (snd (start_end_set_pairs corridor_grid six_conn walled_mesh)) [360, 0, 36, 72] \<and>
   edgepair_segmentation (fixed_engine 2344 [360, 0, 36, 72])
       corridor_grid six_conn walled_mesh tagged_costs
     = Inr ([(0, 0, 0), (1, 0, 0), (2, 0, 0), (3, 0, 0), (4, 0, 0)], 2344)"
  using corridor_search_path
  by (simp add: corridor_states(9) walled_mesh_def edgepair_segmentation_def Let_def
      case_prod_beta fixed_engine_def corridor_decoded)







text \<open>
  C7. When the label map is two-dimensional and the torsion penalty is positive, the
  call behaves as the same call with the torsion penalty set to zero, except that the
  warning is printed: it fails exactly when that call fails, with the same error, and
  otherwise goes on with the torsion penalty zero. (The source tests
  \<open>mesh_map.ndim() == 2\<close>, which is how the host presents a label map with a single
  z-slice.) Whenever the call reaches a
  segmentation routine, the settings it passes on are the caller's settings, changed in
  nothing but this torsion penalty, and the warning is printed exactly in that case.
\<close>

theorem torsion_forced_to_zero_in_2d:
  "(mesh_ndim a = 2 \<and> 0 < torsion_penalty (settings a) \<longrightarrow>
      mexFunction a =
        map_sum id (\<lambda>d. d\<lparr>printed := [torsion_warning]\<rparr>)
          (mexFunction (a\<lparr>settings := (settings a)\<lparr>torsion_penalty := 0\<rparr>\<rparr>))) \<and>
   (\<forall>d. mexFunction a = Inr d \<longrightarrow>
      passed_settings d =
        (if mesh_ndim a = 2 \<and> torsion_penalty (settings a) \<noteq> 0
         then (settings a)\<lparr>torsion_penalty := 0\<rparr> else settings a) \<and>
      printed d =
        (if mesh_ndim a = 2 \<and> torsion_penalty (settings a) \<noteq> 0
         then [torsion_warning] else []))"
proof (intro conjI impI allI)
  assume "mesh_ndim a = 2 \<and> 0 < torsion_penalty (settings a)"
  then show "mexFunction a =
        map_sum id (\<lambda>d. d\<lparr>printed := [torsion_warning]\<rparr>)
          (mexFunction (a\<lparr>settings := (settings a)\<lparr>torsion_penalty := 0\<rparr>\<rparr>))"
    by (intro mexFunction_zero_torsion) simp_all
next
  fix d assume "mexFunction a = Inr d"
  then show "passed_settings d =
        (if mesh_ndim a = 2 \<and> torsion_penalty (settings a) \<noteq> 0
         then (settings a)\<lparr>torsion_penalty := 0\<rparr> else settings a)"
    by (rule mexFunction_Inr(1))
next
  fix d assume "mexFunction a = Inr d"
  then show "printed d =
        (if mesh_ndim a = 2 \<and> torsion_penalty (settings a) \<noteq> 0
         then [torsion_warning] else [])"
    by (rule mexFunction_Inr(2))
qed

theorem torsion_forced_to_zero_in_2d_witness:
  "mesh_ndim planar_args = 2 \<and> 0 < torsion_penalty (settings planar_args) \<and>
   mexFunction planar_args =
     Inr \<lparr>called = EdgeSegmentation,
          passed_settings = planar_settings\<lparr>torsion_penalty := 0\<rparr>,
          passed_voxeldimensions = [1, 1, 1],
          printed = [torsion_warning]\<rparr> \<and>
   mexFunction (planar_args\<lparr>settings := planar_settings\<lparr>torsion_penalty := 0\<rparr>\<rparr>) =
     Inr \<lparr>called = EdgeSegmentation,
          passed_settings = planar_settings\<lparr>torsion_penalty := 0\<rparr>,
          passed_voxeldimensions = [1, 1, 1],
          printed = []\<rparr>"
  using torsion_forced_to_zero_in_2d [of planar_args]
  by (simp add: mexFunction_def planar_args_def planar_settings_def
      default_voxeldimensions_def read_sets_cell_def)







end
